theory Spec2Isabelle
  imports Complex_Main
begin

section \<open>The backend registry of the transpile suite (backend.py)\<close>

text \<open>
  \<^verbatim>\<open>backend.py\<close> defines the class \<^verbatim>\<open>BackendManager\<close>: a dictionary of execution
  backends keyed by display name, a dictionary of cached noise models, and the
  currently active backend. The class is embedded by explicit state passing: the
  object is a record, a method takes the record and returns its result together
  with the record after the call, and an exception is a value of type \<open>exn\<close> on the
  left of a sum.

  The methods call the qiskit libraries, which are not part of the repository. The
  library calls whose outcome the code depends on are fields of the record \<open>env\<close>, so
  that a theorem below holds for every behaviour of the library; a library call
  either returns a value or raises. This includes the two calls
  \<^verbatim>\<open>AerSimulator(method=...)\<close> of the constructor, which stand outside its \<^verbatim>\<open>try\<close>
  block. The method \<^verbatim>\<open>add_all_qubit_quantum_error\<close> of the library is modelled by what
  it does with an error: it skips an ideal error, it raises when the number of qubits
  of the error does not fit the instruction, and it attaches the error otherwise.
\<close>

subsection \<open>Exceptions\<close>

text \<open>
  \<^verbatim>\<open>ValueError\<close> is what \<^verbatim>\<open>backend.py\<close> itself raises, \<^verbatim>\<open>KeyError\<close> is what a
  dictionary subscript raises on a missing key, and \<open>OtherException\<close> stands for
  any other subclass of \<^verbatim>\<open>Exception\<close> that a library call raises (the argument is the
  class name). All three are caught by \<^verbatim>\<open>except Exception\<close>.
\<close>

datatype exn = ValueError string | KeyError string | OtherException string

subsection \<open>Python dictionaries\<close>

text \<open>
  A Python \<^verbatim>\<open>dict\<close> keeps its keys in insertion order; assigning to a key that is
  already present replaces the value and keeps the position. The dictionary is an
  association list with pairwise different keys.
\<close>

type_synonym ('k, 'v) dict = "('k \<times> 'v) list"

fun dict_set :: "'k \<Rightarrow> 'v \<Rightarrow> ('k, 'v) dict \<Rightarrow> ('k, 'v) dict" where
  "dict_set k v [] = [(k, v)]"
| "dict_set k v ((k', v') # d) =
     (if k' = k then (k, v) # d else (k', v') # dict_set k v d)"

definition dict_keys :: "('k, 'v) dict \<Rightarrow> 'k list" where
  "dict_keys d = map fst d"

definition dict_contains :: "'k \<Rightarrow> ('k, 'v) dict \<Rightarrow> bool" where
  "dict_contains k d = (map_of d k \<noteq> None)"

definition dict_getitem :: "(string, 'v) dict \<Rightarrow> string \<Rightarrow> exn + 'v" where
  "dict_getitem d k = (case map_of d k of None \<Rightarrow> Inl (KeyError k) | Some v \<Rightarrow> Inr v)"

definition dict_get :: "('k, 'v) dict \<Rightarrow> 'k \<Rightarrow> 'v \<Rightarrow> 'v" where
  "dict_get d k dflt = (case map_of d k of None \<Rightarrow> dflt | Some v \<Rightarrow> v)"

subsection \<open>Backends\<close>

text \<open>
  A remote backend is an object handed out by the IBMQ provider. The constructor
  reads it through \<^verbatim>\<open>b.configuration().simulator\<close> and \<^verbatim>\<open>b.name()\<close>; each of the two
  calls may raise. A local backend is the object that \<^verbatim>\<open>AerSimulator(method=...)\<close>
  returns when it returns, kept as the method string it was made with.
\<close>

record configuration =
  simulator :: bool

record remote_backend =
  name :: "exn + string"
  configuration :: "exn + configuration"

datatype backend = AerSimulator string | IBMBackend remote_backend

datatype provider = Provider (provider_backends: "exn + remote_backend list")

record ibmq =
  save_account :: "string \<Rightarrow> exn + unit"
  load_account :: "exn + unit"
  get_provider :: "string option \<Rightarrow> string option \<Rightarrow> string option \<Rightarrow> exn + provider"

subsection \<open>Noise models\<close>

text \<open>
  A noise model holds the quantum errors that apply to all qubits, by instruction
  name. \<^verbatim>\<open>NoiseModel()\<close> is the empty model.
\<close>

type_synonym 'qe noise_model = "(string, 'qe) dict"

definition NoiseModel :: "'qe noise_model" where
  "NoiseModel = []"

subsection \<open>The environment: library calls and float subtraction\<close>

text \<open>
  \<open>new_AerSimulator\<close> is the call \<^verbatim>\<open>AerSimulator(method=...)\<close>; \<open>num_qubits\<close> and \<open>ideal\<close>
  are the attribute and the method of a quantum error that the library reads when an
  error is attached; \<open>float_sub\<close> is the subtraction of two floats.
\<close>

record ('qe, 'p) env =
  new_AerSimulator :: "string \<Rightarrow> exn + backend"
  IBMQ :: "ibmq option"
  properties :: "backend \<Rightarrow> exn + 'p"
  from_backend :: "'p \<Rightarrow> exn + 'qe noise_model"
  depolarizing_error :: "real \<Rightarrow> nat \<Rightarrow> exn + 'qe"
  pauli_error :: "(string \<times> real) list \<Rightarrow> exn + 'qe"
  num_qubits :: "'qe \<Rightarrow> nat"
  ideal :: "'qe \<Rightarrow> bool"
  compose :: "'qe \<Rightarrow> 'qe \<Rightarrow> 'qe"
  float_sub :: "real \<Rightarrow> real \<Rightarrow> real"

text \<open>
  \<^verbatim>\<open>NoiseModel.add_all_qubit_quantum_error(error, instructions)\<close>. The library returns at
  once when the error is ideal. Otherwise, for each instruction in turn, it raises
  \<^verbatim>\<open>NoiseError\<close> when the instruction is one of its one-, two- or three-qubit
  instructions and the error acts on another number of qubits, and else it attaches the
  error to the instruction, composing it with an error that is already there.
\<close>

definition one_qubit_instructions :: "string list" where
  "one_qubit_instructions =
     [''u1'', ''u2'', ''u3'', ''u'', ''p'', ''r'', ''rx'', ''ry'', ''rz'', ''id'', ''x'', ''y'',
      ''z'', ''h'', ''s'', ''sdg'', ''sx'', ''sxdg'', ''t'', ''tdg'']"

definition two_qubit_instructions :: "string list" where
  "two_qubit_instructions =
     [''swap'', ''cx'', ''cy'', ''cz'', ''csx'', ''cp'', ''cu'', ''cu1'', ''cu2'', ''cu3'', ''rxx'',
      ''ryy'', ''rzz'', ''rzx'', ''ecr'']"

definition three_qubit_instructions :: "string list" where
  "three_qubit_instructions = [''ccx'', ''cswap'']"

definition check_number_of_qubits :: "('qe, 'p) env \<Rightarrow> 'qe \<Rightarrow> string \<Rightarrow> exn option" where
  "check_number_of_qubits env err i =
     (if i \<in> set one_qubit_instructions \<and> num_qubits env err \<noteq> 1
      then Some (OtherException ''NoiseError'')
      else if i \<in> set two_qubit_instructions \<and> num_qubits env err \<noteq> 2
      then Some (OtherException ''NoiseError'')
      else if i \<in> set three_qubit_instructions \<and> num_qubits env err \<noteq> 3
      then Some (OtherException ''NoiseError'')
      else None)"

fun add_instructions ::
  "('qe, 'p) env \<Rightarrow> 'qe \<Rightarrow> string list \<Rightarrow> 'qe noise_model \<Rightarrow> exn + 'qe noise_model" where
  "add_instructions env err [] nm = Inr nm"
| "add_instructions env err (i # instructions) nm =
     (case check_number_of_qubits env err i of
        Some e \<Rightarrow> Inl e
      | None \<Rightarrow>
          add_instructions env err instructions
            (dict_set i (case map_of nm i of None \<Rightarrow> err | Some old \<Rightarrow> compose env old err) nm))"

definition add_all_qubit_quantum_error ::
  "('qe, 'p) env \<Rightarrow> 'qe \<Rightarrow> string list \<Rightarrow> 'qe noise_model \<Rightarrow> exn + 'qe noise_model" where
  "add_all_qubit_quantum_error env err instructions nm =
     (if ideal env err then Inr nm else add_instructions env err instructions nm)"

subsection \<open>BackendManager\<close>

record 'qe backend_manager =
  backends :: "(string, backend) dict"
  noise_models :: "(string, 'qe noise_model) dict"
  active_backend :: backend

text \<open>The loop of the constructor over \<^verbatim>\<open>provider.backends()\<close>. The dictionary is updated
  in place, so when a call raises the loop returns the exception together with the
  dictionary as it is at that moment.\<close>

fun register_remote ::
  "remote_backend list \<Rightarrow> (string, backend) dict \<Rightarrow> (string, backend) dict \<times> exn option" where
  "register_remote [] bs = (bs, None)"
| "register_remote (b # rest) bs =
     (case configuration b of
        Inl e \<Rightarrow> (bs, Some e)
      | Inr c \<Rightarrow>
          if \<not> simulator c then
            (case name b of
               Inl e \<Rightarrow> (bs, Some e)
             | Inr n \<Rightarrow> register_remote rest (dict_set (''IBM '' @ n) (IBMBackend b) bs))
          else register_remote rest bs)"

text \<open>The body of the \<^verbatim>\<open>try\<close> block of the constructor.\<close>

definition load_ibmq ::
  "ibmq \<Rightarrow> string \<Rightarrow> string option \<Rightarrow> string option \<Rightarrow> string option \<Rightarrow>
     (string, backend) dict \<Rightarrow> (string, backend) dict \<times> exn option" where
  "load_ibmq q ibm_api_token ibm_hub ibm_group ibm_project bs =
     (case save_account q ibm_api_token of
        Inl e \<Rightarrow> (bs, Some e)
      | Inr _ \<Rightarrow>
     (case load_account q of
        Inl e \<Rightarrow> (bs, Some e)
      | Inr _ \<Rightarrow>
     (case get_provider q ibm_hub ibm_group ibm_project of
        Inl e \<Rightarrow> (bs, Some e)
      | Inr provider \<Rightarrow>
     (case provider_backends provider of
        Inl e \<Rightarrow> (bs, Some e)
      | Inr rs \<Rightarrow> register_remote rs bs))))"

text \<open>The \<^verbatim>\<open>if IBMQ and ibm_api_token\<close> statement of the constructor, run on the dictionary
  \<open>bs\<close>. The condition holds when the import succeeded and the token is a non-empty
  string; \<^verbatim>\<open>except Exception: pass\<close> drops the exception and keeps the dictionary.\<close>

definition load_backends ::
  "('qe, 'p) env \<Rightarrow> string option \<Rightarrow> string option \<Rightarrow> string option \<Rightarrow> string option \<Rightarrow>
     (string, backend) dict \<Rightarrow> (string, backend) dict" where
  "load_backends env ibm_api_token ibm_hub ibm_group ibm_project bs =
     (case IBMQ env of
        None \<Rightarrow> bs
      | Some q \<Rightarrow>
          (case ibm_api_token of
             None \<Rightarrow> bs
           | Some tok \<Rightarrow>
               if tok = [] then bs
               else fst (load_ibmq q tok ibm_hub ibm_group ibm_project bs)))"

text \<open>The constructor. The two simulators are made first, outside the \<^verbatim>\<open>try\<close> block: an
  exception of either call leaves the constructor.\<close>

definition init ::
  "('qe, 'p) env \<Rightarrow> string option \<Rightarrow> string option \<Rightarrow> string option \<Rightarrow> string option \<Rightarrow>
     exn + 'qe backend_manager" where
  "init env ibm_api_token ibm_hub ibm_group ibm_project =
     (case new_AerSimulator env ''statevector'' of
        Inl e \<Rightarrow> Inl e
      | Inr sv \<Rightarrow>
     (case new_AerSimulator env ''qasm'' of
        Inl e \<Rightarrow> Inl e
      | Inr qa \<Rightarrow>
          (let bs = load_backends env ibm_api_token ibm_hub ibm_group ibm_project
                      (dict_set ''Aer (qasm)'' qa (dict_set ''Aer (statevector)'' sv []))
           in case dict_getitem bs ''Aer (statevector)'' of
                Inl e \<Rightarrow> Inl e
              | Inr b \<Rightarrow> Inr \<lparr>backends = bs, noise_models = [], active_backend = b\<rparr>)))"

definition list_backends :: "'qe backend_manager \<Rightarrow> string list" where
  "list_backends m = dict_keys (backends m)"

definition not_available :: "string \<Rightarrow> string" where
  "not_available n = ''Backend '' @ [CHR 0x27] @ n @ [CHR 0x27] @ '' not available.''"

definition set_backend ::
  "'qe backend_manager \<Rightarrow> string \<Rightarrow> (exn + backend) \<times> 'qe backend_manager" where
  "set_backend m n =
     (if \<not> dict_contains n (backends m) then (Inl (ValueError (not_available n)), m)
      else case dict_getitem (backends m) n of
             Inl e \<Rightarrow> (Inl e, m)
           | Inr b \<Rightarrow> (Inr b, m\<lparr>active_backend := b\<rparr>))"

definition get_backend :: "'qe backend_manager \<Rightarrow> backend" where
  "get_backend m = active_backend m"

definition create_noise_model ::
  "('qe, 'p) env \<Rightarrow> 'qe backend_manager \<Rightarrow> string \<Rightarrow>
     (exn + 'qe noise_model) \<times> 'qe backend_manager" where
  "create_noise_model env m backend_name =
     (if \<not> dict_contains backend_name (backends m)
      then (Inl (ValueError (not_available backend_name)), m)
      else case dict_getitem (backends m) backend_name of
             Inl e \<Rightarrow> (Inl e, m)
           | Inr b \<Rightarrow>
               (let nm = (case properties env b of
                            Inl e \<Rightarrow> NoiseModel
                          | Inr props \<Rightarrow>
                              (case from_backend env props of
                                 Inl e \<Rightarrow> NoiseModel
                               | Inr derived \<Rightarrow> derived))
                in (Inr nm, m\<lparr>noise_models := dict_set backend_name nm (noise_models m)\<rparr>)))"

definition get_noise_model :: "'qe backend_manager \<Rightarrow> string \<Rightarrow> exn + 'qe noise_model" where
  "get_noise_model m backend_name = Inr (dict_get (noise_models m) backend_name NoiseModel)"

definition sample_depolarizing :: "('qe, 'p) env \<Rightarrow> real \<Rightarrow> exn + 'qe noise_model" where
  "sample_depolarizing env p =
     (case depolarizing_error env p 1 of
        Inl e \<Rightarrow> Inl e
      | Inr err \<Rightarrow> add_all_qubit_quantum_error env err [''u1'', ''u2'', ''u3''] NoiseModel)"

definition pauli_ops :: "('qe, 'p) env \<Rightarrow> real \<Rightarrow> (string \<times> real) list" where
  "pauli_ops env p = [(''X'', p), (''I'', float_sub env 1 p)]"

definition sample_pauli :: "('qe, 'p) env \<Rightarrow> real \<Rightarrow> exn + 'qe noise_model" where
  "sample_pauli env p =
     (case pauli_error env (pauli_ops env p) of
        Inl e \<Rightarrow> Inl e
      | Inr err \<Rightarrow> add_all_qubit_quantum_error env err [''cx''] NoiseModel)"

subsection \<open>The lifetime of a registry\<close>

text \<open>After construction a registry is used through its methods. A call is run for its
  effect on the object; when the method raises, the object is as the method left it.
  The two static constructors do not take the object and are not calls on it.\<close>

datatype call =
  ListBackends | SetBackend string | GetBackend | CreateNoiseModel string | GetNoiseModel string

fun step :: "('qe, 'p) env \<Rightarrow> 'qe backend_manager \<Rightarrow> call \<Rightarrow> 'qe backend_manager" where
  "step env m ListBackends = m"
| "step env m (SetBackend n) = snd (set_backend m n)"
| "step env m GetBackend = m"
| "step env m (CreateNoiseModel n) = snd (create_noise_model env m n)"
| "step env m (GetNoiseModel n) = m"

definition run :: "('qe, 'p) env \<Rightarrow> 'qe backend_manager \<Rightarrow> call list \<Rightarrow> 'qe backend_manager" where
  "run env m cs = foldl (step env) m cs"

subsection \<open>Notions used to state the properties\<close>

text \<open>The assignments \<^verbatim>\<open>self.backends[...] = b\<close> that the loop of the constructor performs
  on a list of remote backends, in order: one for every backend that is not a
  simulator, up to the first backend at which a call raises.\<close>

fun assignments :: "remote_backend list \<Rightarrow> (string \<times> backend) list" where
  "assignments [] = []"
| "assignments (b # rest) =
     (case configuration b of
        Inl e \<Rightarrow> []
      | Inr c \<Rightarrow>
          if simulator c then assignments rest
          else (case name b of
                  Inl e \<Rightarrow> []
                | Inr n \<Rightarrow> (''IBM '' @ n, IBMBackend b) # assignments rest))"

text \<open>The remote backends that a construction enumerates: the list returned by
  \<^verbatim>\<open>provider.backends()\<close>, and no backend when discovery is not attempted or fails
  before that call returns.\<close>

definition enumerated ::
  "('qe, 'p) env \<Rightarrow> string option \<Rightarrow> string option \<Rightarrow> string option \<Rightarrow> string option \<Rightarrow>
     remote_backend list" where
  "enumerated env ibm_api_token ibm_hub ibm_group ibm_project =
     (case (IBMQ env, ibm_api_token) of
        (Some q, Some tok) \<Rightarrow>
          if tok = [] then []
          else (case (save_account q tok, load_account q,
                      get_provider q ibm_hub ibm_group ibm_project) of
                  (Inr _, Inr _, Inr provider) \<Rightarrow>
                    (case provider_backends provider of Inl e \<Rightarrow> [] | Inr rs \<Rightarrow> rs)
                | _ \<Rightarrow> [])
      | _ \<Rightarrow> [])"

text \<open>A list without its repetitions, every element at the place of its first
  occurrence.\<close>

fun first_occurrences :: "'a list \<Rightarrow> 'a list" where
  "first_occurrences [] = []"
| "first_occurrences (x # xs) = x # filter (\<lambda>y. y \<noteq> x) (first_occurrences xs)"

text \<open>A remote entry of the registry is complete when it is the backend object itself,
  stored under \<^verbatim>\<open>IBM\<close> and its name, and both calls on the object returned, the
  configuration saying that it is no simulator.\<close>

fun complete_entry :: "string \<times> backend \<Rightarrow> bool" where
  "complete_entry (k, AerSimulator method) = False"
| "complete_entry (k, IBMBackend b) =
     (case (name b, configuration b) of
        (Inr n, Inr c) \<Rightarrow> k = ''IBM '' @ n \<and> \<not> simulator c
      | _ \<Rightarrow> False)"

text \<open>The accuracy of a floating-point subtraction rounded to nearest in binary64: the
  relative error of \<^verbatim>\<open>a - b\<close> is at most \<open>2\<^sup>-\<^sup>5\<^sup>3\<close>.\<close>

definition rounded_sub :: "('qe, 'p) env \<Rightarrow> real \<Rightarrow> real \<Rightarrow> bool" where
  "rounded_sub env a b = (\<bar>float_sub env a b - (a - b)\<bar> \<le> \<bar>a - b\<bar> / 2 ^ 53)"

text \<open>What the code expects of \<^verbatim>\<open>depolarizing_error\<close>: for a probability in \<open>[0, 1]\<close> the
  call \<^verbatim>\<open>depolarizing_error(p, 1)\<close> returns, and the error it returns acts on one
  qubit.\<close>

definition depolarizing_contract :: "('qe, 'p) env \<Rightarrow> bool" where
  "depolarizing_contract env =
     (\<forall>p. 0 \<le> p \<and> p \<le> 1 \<longrightarrow>
          (\<exists>err. depolarizing_error env p 1 = Inr err \<and> num_qubits env err = 1))"

subsection \<open>Concrete inputs\<close>

text \<open>A concrete environment on which the definitions are evaluated. Quantum errors are
  kept as the constructor call that made them, calibration data as a list of gate
  error rates. \<^verbatim>\<open>depolarizing_error\<close> accepts the range that the library documents,
  \<open>0 \<le> p \<le> 4\<^sup>n / (4\<^sup>n - 1)\<close>, and its error acts on \<open>n\<close> qubits and is ideal for
  \<open>p = 0\<close>; \<^verbatim>\<open>pauli_error\<close> accepts weights that are not negative and sum to one within
  the tolerance of \<^verbatim>\<open>numpy.isclose\<close>, and its error acts on as many qubits as a Pauli
  label has letters and is ideal when all weight is on identity labels; a local
  simulator has no calibration data. In \<open>aer_env\<close> the call \<^verbatim>\<open>AerSimulator(method=...)\<close>
  returns for every method, as the constructor expects; in \<open>checked_env\<close> it raises
  \<^verbatim>\<open>AerError\<close> for a method that is not one of the simulation methods of the library,
  and \<^verbatim>\<open>qasm\<close> is not one of them.\<close>

datatype channel =
  Depolarizing real nat | Pauli "(string \<times> real) list" | Composed channel channel

fun channel_qubits :: "channel \<Rightarrow> nat" where
  "channel_qubits (Depolarizing p n) = n"
| "channel_qubits (Pauli ops) = (case ops of [] \<Rightarrow> 0 | (label, w) # rest \<Rightarrow> length label)"
| "channel_qubits (Composed a b) = channel_qubits a"

fun channel_ideal :: "channel \<Rightarrow> bool" where
  "channel_ideal (Depolarizing p n) = (p = 0)"
| "channel_ideal (Pauli ops) =
     list_all (\<lambda>(label, w). w = 0 \<or> list_all (\<lambda>c. c = CHR ''I'') label) ops"
| "channel_ideal (Composed a b) = (channel_ideal a \<and> channel_ideal b)"

definition aer_methods :: "string list" where
  "aer_methods =
     [''automatic'', ''statevector'', ''density_matrix'', ''stabilizer'',
      ''matrix_product_state'', ''extended_stabilizer'', ''unitary'', ''superop'',
      ''tensor_network'']"

definition aer_backends :: "(string, backend) dict" where
  "aer_backends =
     dict_set ''Aer (qasm)'' (AerSimulator ''qasm'')
       (dict_set ''Aer (statevector)'' (AerSimulator ''statevector'') [])"

definition device :: "string \<Rightarrow> remote_backend" where
  "device n = \<lparr>name = Inr n, configuration = Inr \<lparr>simulator = False\<rparr>\<rparr>"

definition cloud_simulator :: remote_backend where
  "cloud_simulator =
     \<lparr>name = Inr ''ibmq_qasm_simulator'', configuration = Inr \<lparr>simulator = True\<rparr>\<rparr>"

definition unreachable_device :: remote_backend where
  "unreachable_device =
     \<lparr>name = Inr ''unreachable'', configuration = Inl (OtherException ''RequestsApiError'')\<rparr>"

definition account :: "remote_backend list \<Rightarrow> ibmq" where
  "account rs =
     \<lparr>save_account = (\<lambda>token. Inr ()), load_account = Inr (),
      get_provider = (\<lambda>hub grp project. Inr (Provider (Inr rs)))\<rparr>"

definition no_account :: ibmq where
  "no_account =
     \<lparr>save_account = (\<lambda>token. Inr ()),
      load_account = Inl (OtherException ''IBMQAccountCredentialsInvalidToken''),
      get_provider = (\<lambda>hub grp project. Inr (Provider (Inr [device ''lima''])))\<rparr>"

definition aer_env :: "ibmq option \<Rightarrow> (channel, (string \<times> real) list) env" where
  "aer_env q =
     \<lparr>new_AerSimulator = (\<lambda>method. Inr (AerSimulator method)),
      IBMQ = q,
      properties = (\<lambda>b. case b of
                          AerSimulator method \<Rightarrow> Inl (OtherException ''AttributeError'')
                        | IBMBackend r \<Rightarrow> Inr [(''cx'', 1 / 100)]),
      from_backend = (\<lambda>props. Inr (map (\<lambda>(g, r). (g, Depolarizing r 2)) props)),
      depolarizing_error =
        (\<lambda>p n. if 0 < n \<and> 0 \<le> p \<and> p \<le> 4 ^ n / (4 ^ n - 1) then Inr (Depolarizing p n)
                else Inl (OtherException ''NoiseError'')),
      pauli_error =
        (\<lambda>ops. if list_all (\<lambda>w. 0 \<le> w) (map snd ops)
                   \<and> \<bar>sum_list (map snd ops) - 1\<bar> \<le> 1 / 10 ^ 8 + 1 / 10 ^ 5
                then Inr (Pauli ops) else Inl (OtherException ''NoiseError'')),
      num_qubits = channel_qubits,
      ideal = channel_ideal,
      compose = Composed,
      float_sub = (\<lambda>a b. a - b)\<rparr>"

definition checked_env :: "ibmq option \<Rightarrow> (channel, (string \<times> real) list) env" where
  "checked_env q =
     (aer_env q)
       \<lparr>new_AerSimulator :=
          (\<lambda>method. if method \<in> set aer_methods then Inr (AerSimulator method)
                     else Inl (OtherException ''AerError''))\<rparr>"

definition local_manager :: "channel backend_manager" where
  "local_manager =
     \<lparr>backends = aer_backends, noise_models = [],
      active_backend = AerSimulator ''statevector''\<rparr>"

definition lima_manager :: "channel backend_manager" where
  "lima_manager =
     \<lparr>backends = aer_backends @ [(''IBM lima'', IBMBackend (device ''lima''))],
      noise_models = [], active_backend = AerSimulator ''statevector''\<rparr>"

definition calibrated_manager :: "channel backend_manager" where
  "calibrated_manager =
     lima_manager\<lparr>noise_models := [(''IBM lima'', [(''cx'', Depolarizing (1 / 100) 2)])]\<rparr>"

definition three_devices :: "remote_backend list" where
  "three_devices = [device ''lima'', unreachable_device, device ''quito'']"

section \<open>Properties\<close>

subsection \<open>Dictionaries\<close>

lemma aer_backends_eq:
  "aer_backends =
     [(''Aer (statevector)'', AerSimulator ''statevector''), (''Aer (qasm)'', AerSimulator ''qasm'')]"
  by (simp add: aer_backends_def)

lemma dict_set_keys:
  "map fst (dict_set k v d) = (if k \<in> set (map fst d) then map fst d else map fst d @ [k])"
  by (induction d) force+

lemma dict_set_lookup: "map_of (dict_set k v d) k' = (if k' = k then Some v else map_of d k')"
  by (induction d) auto

lemma dict_set_entries: "set (dict_set k v d) \<subseteq> insert (k, v) (set d)"
  by (induction d) (auto split: if_splits)

lemma dict_set_dom: "fst ` set (dict_set k v d) = insert k (fst ` set d)"
  using arg_cong [OF dict_set_keys [of k v d], of set] by auto

lemma dict_contains_keys: "dict_contains k d \<longleftrightarrow> k \<in> set (dict_keys d)"
  by (simp add: dict_contains_def dict_keys_def map_of_eq_None_iff)

subsection \<open>The loop over the remote backends\<close>

lemma register_remote_after_builtins:
  "register_remote rs ([(''Aer (statevector)'', sv), (''Aer (qasm)'', qa)] @ d) =
     ([(''Aer (statevector)'', sv), (''Aer (qasm)'', qa)] @ fst (register_remote rs d),
      snd (register_remote rs d))"
  by (induction rs arbitrary: d) (auto split: sum.splits)

lemma register_remote_assignments:
  "fst (register_remote rs d) = foldl (\<lambda>d (k, v). dict_set k v d) d (assignments rs)"
  by (induction rs arbitrary: d) (auto split: sum.splits)

lemma register_remote_entries:
  "(k, b) \<in> set (fst (register_remote rs d)) \<Longrightarrow> (k, b) \<in> set d \<or> complete_entry (k, b)"
proof (induction rs arbitrary: d)
  case Nil
  then show ?case by simp
next
  case (Cons r rs)
  show ?case
  proof (cases "configuration r")
    case (Inl e)
    with Cons.prems show ?thesis by simp
  next
    case (Inr c)
    show ?thesis
    proof (cases "simulator c")
      case True
      with Inr Cons show ?thesis by simp
    next
      case False
      show ?thesis
      proof (cases "name r")
        case (Inl e)
        with Inr False Cons.prems show ?thesis by simp
      next
        case n: (Inr n)
        from Cons.prems Inr False n
        have "(k, b) \<in> set (fst (register_remote rs (dict_set (''IBM '' @ n) (IBMBackend r) d)))"
          by simp
        then have "(k, b) \<in> set (dict_set (''IBM '' @ n) (IBMBackend r) d) \<or> complete_entry (k, b)"
          by (rule Cons.IH)
        moreover have "complete_entry (''IBM '' @ n, IBMBackend r)"
          using Inr False n by simp
        ultimately show ?thesis
          using dict_set_entries [of "''IBM '' @ n" "IBMBackend r" d] by auto
      qed
    qed
  qed
qed

lemma register_remote_append:
  "snd (register_remote xs d) = None \<Longrightarrow>
   register_remote (xs @ ys) d = register_remote ys (fst (register_remote xs d))"
  by (induction xs arbitrary: d) (auto split: sum.splits if_splits)

lemma register_remote_fails_at:
  "configuration bad = Inl e \<or> (\<exists>c. configuration bad = Inr c \<and> \<not> simulator c \<and> name bad = Inl e) \<Longrightarrow>
   register_remote (bad # rest) d = (d, Some e)"
  by auto

lemma register_remote_complete:
  "list_all complete_entry (fst (register_remote rs []))"
  unfolding list_all_iff using register_remote_entries [of _ _ rs "[]"] by auto

lemma enumerated_failure:
  "IBMQ env = Some q \<Longrightarrow> tok = Some t \<Longrightarrow>
   save_account q t = Inl e \<or> load_account q = Inl e \<or> get_provider q hub grp prj = Inl e
     \<or> (\<exists>pr. get_provider q hub grp prj = Inr pr \<and> provider_backends pr = Inl e) \<Longrightarrow>
   enumerated env tok hub grp prj = []"
  by (auto simp: enumerated_def split: sum.splits)

lemma first_occurrences_snoc:
  "first_occurrences (xs @ [k]) =
     (if k \<in> set xs then first_occurrences xs else first_occurrences xs @ [k])"
  by (induction xs) auto

lemma first_occurrences_set: "set (first_occurrences xs) = set xs"
  by (induction xs) auto

lemma first_occurrences_distinct: "distinct (first_occurrences xs)"
  by (induction xs) (auto simp: first_occurrences_set)

lemma foldl_dict_set_keys:
  "map fst (foldl (\<lambda>d (k, v). dict_set k v d) [] as) = first_occurrences (map fst as)"
proof (induction as rule: rev_induct)
  case Nil
  show ?case by simp
next
  case (snoc a as)
  then show ?case
    by (cases a) (simp add: dict_set_keys first_occurrences_snoc first_occurrences_set)
qed

subsection \<open>The constructor\<close>

lemma load_backends_eq:
  "load_backends env tok hub grp prj [(''Aer (statevector)'', sv), (''Aer (qasm)'', qa)] =
     [(''Aer (statevector)'', sv), (''Aer (qasm)'', qa)] @
     fst (register_remote (enumerated env tok hub grp prj) [])"
  using register_remote_after_builtins [of _ sv qa "[]"]
  by (simp add: load_backends_def enumerated_def load_ibmq_def
           split: option.splits sum.splits)

lemma init_returns:
  "new_AerSimulator env ''statevector'' = Inr sv \<Longrightarrow> new_AerSimulator env ''qasm'' = Inr qa \<Longrightarrow>
   init env tok hub grp prj =
     Inr \<lparr>backends = [(''Aer (statevector)'', sv), (''Aer (qasm)'', qa)] @
                     fst (register_remote (enumerated env tok hub grp prj) []),
          noise_models = [], active_backend = sv\<rparr>"
  by (simp add: init_def load_backends_eq dict_getitem_def)

lemma init_Inl:
  assumes "init env tok hub grp prj = Inl e"
  shows "new_AerSimulator env ''statevector'' = Inl e \<or> new_AerSimulator env ''qasm'' = Inl e"
proof (cases "new_AerSimulator env ''statevector''")
  case (Inl e')
  with assms show ?thesis by (simp add: init_def)
next
  case sv: (Inr sv)
  show ?thesis
  proof (cases "new_AerSimulator env ''qasm''")
    case (Inl e')
    with assms sv show ?thesis by (simp add: init_def)
  next
    case qa: (Inr qa)
    from assms init_returns [OF sv qa, of tok hub grp prj] show ?thesis by simp
  qed
qed

lemma init_Inr:
  assumes "init env tok hub grp prj = Inr m"
  shows "\<exists>sv qa. new_AerSimulator env ''statevector'' = Inr sv
           \<and> new_AerSimulator env ''qasm'' = Inr qa
           \<and> m = \<lparr>backends = [(''Aer (statevector)'', sv), (''Aer (qasm)'', qa)] @
                              fst (register_remote (enumerated env tok hub grp prj) []),
                   noise_models = [], active_backend = sv\<rparr>"
proof (cases "new_AerSimulator env ''statevector''")
  case (Inl e)
  with assms show ?thesis by (simp add: init_def)
next
  case sv: (Inr sv)
  show ?thesis
  proof (cases "new_AerSimulator env ''qasm''")
    case (Inl e)
    with assms sv show ?thesis by (simp add: init_def)
  next
    case qa: (Inr qa)
    from assms init_returns [OF sv qa, of tok hub grp prj] sv qa show ?thesis by simp
  qed
qed

subsection \<open>Method calls\<close>

lemma set_backend_backends: "backends (snd (set_backend m n)) = backends m"
  by (simp add: set_backend_def split: sum.splits)

lemma create_noise_model_backends: "backends (snd (create_noise_model env m n)) = backends m"
  by (simp add: create_noise_model_def Let_def split: sum.splits)

lemma step_backends: "backends (step env m c) = backends m"
  by (cases c) (simp_all add: set_backend_backends create_noise_model_backends)

lemma run_backends: "backends (run env m cs) = backends m"
  unfolding run_def by (induction cs arbitrary: m) (simp_all add: step_backends)

lemma step_cache_registered:
  "set (map fst (noise_models m)) \<subseteq> set (map fst (backends m)) \<Longrightarrow>
   set (map fst (noise_models (step env m c))) \<subseteq> set (map fst (backends (step env m c)))"
  by (cases c)
     (auto simp: set_backend_def create_noise_model_def Let_def dict_set_dom dict_contains_def
                 map_of_eq_None_iff
           split: sum.splits if_splits)

lemma run_cache_registered:
  "set (map fst (noise_models m)) \<subseteq> set (map fst (backends m)) \<Longrightarrow>
   set (map fst (noise_models (run env m cs))) \<subseteq> set (map fst (backends (run env m cs)))"
  unfolding run_def
proof (induction cs arbitrary: m)
  case Nil
  then show ?case by simp
next
  case (Cons c cs)
  from Cons.prems have "set (map fst (noise_models (step env m c))) \<subseteq> set (map fst (backends (step env m c)))"
    by (rule step_cache_registered)
  then show ?case using Cons.IH by simp
qed

lemma get_noise_model_cached:
  "get_noise_model m n =
     Inr (case map_of (noise_models m) n of None \<Rightarrow> NoiseModel | Some nm \<Rightarrow> nm)"
  by (simp add: get_noise_model_def dict_get_def)

lemma create_noise_model_unregistered:
  "n \<notin> set (list_backends m) \<Longrightarrow>
   create_noise_model env m n = (Inl (ValueError (not_available n)), m)"
  by (simp add: create_noise_model_def list_backends_def dict_keys_def dict_contains_def
                map_of_eq_None_iff)

lemma create_noise_model_registered:
  "map_of (backends m) n = Some b \<Longrightarrow>
   create_noise_model env m n =
     (let nm = (case properties env b of
                  Inl e \<Rightarrow> NoiseModel
                | Inr props \<Rightarrow>
                    (case from_backend env props of Inl e \<Rightarrow> NoiseModel | Inr derived \<Rightarrow> derived))
      in (Inr nm, m\<lparr>noise_models := dict_set n nm (noise_models m)\<rparr>))"
  by (simp add: create_noise_model_def dict_contains_def dict_getitem_def)

subsection \<open>Attaching an error, and rounding\<close>

lemma instruction_tables:
  "one_qubit_instructions =
     [''u1'', ''u2'', ''u3'', ''u'', ''p'', ''r'', ''rx'', ''ry'', ''rz'', ''id'', ''x'', ''y'',
      ''z'', ''h'', ''s'', ''sdg'', ''sx'', ''sxdg'', ''t'', ''tdg'']"
  "two_qubit_instructions =
     [''swap'', ''cx'', ''cy'', ''cz'', ''csx'', ''cp'', ''cu'', ''cu1'', ''cu2'', ''cu3'', ''rxx'',
      ''ryy'', ''rzz'', ''rzx'', ''ecr'']"
  "three_qubit_instructions = [''ccx'', ''cswap'']"
  by (simp_all add: one_qubit_instructions_def two_qubit_instructions_def
                    three_qubit_instructions_def)

lemma sample_depolarizing_accepted:
  "depolarizing_error env p 1 = Inr err \<Longrightarrow> num_qubits env err = 1 \<Longrightarrow>
   sample_depolarizing env p =
     Inr (if ideal env err then [] else [(''u1'', err), (''u2'', err), (''u3'', err)])"
  by (simp add: sample_depolarizing_def add_all_qubit_quantum_error_def
                check_number_of_qubits_def instruction_tables NoiseModel_def)

lemma rounded_sub_bounds:
  assumes "rounded_sub env a b"
  shows "(a - b) - \<bar>a - b\<bar> / 2 ^ 53 \<le> float_sub env a b"
    and "float_sub env a b \<le> (a - b) + \<bar>a - b\<bar> / 2 ^ 53"
  using assms unfolding rounded_sub_def by linarith+

lemma rounding_slack:
  fixes x :: real
  shows "\<bar>x\<bar> / 2 ^ 53 \<le> \<bar>x\<bar> / 2"
  by (intro divide_left_mono) simp_all

lemma rounded_negative:
  fixes p f :: real
  assumes "1 < p" and "\<bar>f - (1 - p)\<bar> \<le> \<bar>1 - p\<bar> / 2 ^ 53"
  shows "f < 0"
proof -
  define d where "d = \<bar>1 - p\<bar> / 2 ^ 53"
  have "d \<le> \<bar>1 - p\<bar> / 2"
    unfolding d_def by (rule rounding_slack)
  moreover have "\<bar>f - (1 - p)\<bar> \<le> d"
    using assms(2) by (simp only: d_def)
  ultimately show ?thesis
    using assms(1) by argo
qed

lemma rounded_weights:
  fixes p f :: real
  assumes "0 \<le> p" and "p \<le> 1" and "\<bar>f - (1 - p)\<bar> \<le> \<bar>1 - p\<bar> / 2 ^ 53"
  shows "0 \<le> f" and "\<bar>p + f - 1\<bar> \<le> 1 / 10 ^ 9"
proof -
  define d where "d = \<bar>1 - p\<bar> / 2 ^ 53"
  define t where "t = (1::real) / 10 ^ 9"
  have half: "d \<le> \<bar>1 - p\<bar> / 2"
    unfolding d_def by (rule rounding_slack)
  have near: "\<bar>f - (1 - p)\<bar> \<le> d"
    using assms(3) by (simp only: d_def)
  show "0 \<le> f"
    using half near assms(1,2) by argo
  have "d \<le> 1 / 2 ^ 53"
    unfolding d_def using assms(1,2) by (intro divide_right_mono) simp_all
  also have "\<dots> \<le> t"
    by (simp add: t_def)
  finally have "d \<le> t" .
  with near have "\<bar>p + f - 1\<bar> \<le> t"
    by argo
  then show "\<bar>p + f - 1\<bar> \<le> 1 / 10 ^ 9"
    by (simp only: t_def)
qed

lemma pauli_ops_weights:
  assumes "0 \<le> p" and "p \<le> 1" and "rounded_sub env 1 p"
  shows "list_all (\<lambda>w. 0 \<le> w) (map snd (pauli_ops env p))"
    and "\<bar>sum_list (map snd (pauli_ops env p)) - 1\<bar> \<le> 1 / 10 ^ 9"
proof -
  from assms(3) have near: "\<bar>float_sub env 1 p - (1 - p)\<bar> \<le> \<bar>1 - p\<bar> / 2 ^ 53"
    by (simp only: rounded_sub_def)
  have nonneg: "0 \<le> float_sub env 1 p"
    using assms(1,2) near by (rule rounded_weights)
  have sum: "\<bar>p + float_sub env 1 p - 1\<bar> \<le> 1 / 10 ^ 9"
    using assms(1,2) near by (rule rounded_weights)
  show "list_all (\<lambda>w. 0 \<le> w) (map snd (pauli_ops env p))"
    using assms(1) nonneg by (simp add: pauli_ops_def)
  show "\<bar>sum_list (map snd (pauli_ops env p)) - 1\<bar> \<le> 1 / 10 ^ 9"
    using sum by (simp add: pauli_ops_def)
qed

lemma sample_pauli_mismatch:
  "pauli_error env (pauli_ops env p) = Inr err \<Longrightarrow> \<not> ideal env err \<Longrightarrow>
   num_qubits env err \<noteq> 2 \<Longrightarrow>
   sample_pauli env p = Inl (OtherException ''NoiseError'')"
  by (simp add: sample_pauli_def add_all_qubit_quantum_error_def check_number_of_qubits_def
                instruction_tables)

lemma aer_env_contract: "depolarizing_contract (aer_env q)"
  by (auto simp: depolarizing_contract_def aer_env_def)

subsection \<open>Selecting a backend\<close>

text \<open>
  Claim C1. For every backend name: when the name is not registered, \<^verbatim>\<open>set_backend\<close>
  fails (it raises \<^verbatim>\<open>ValueError\<close> with the message that the backend is not available, the
  error the code uses for an unknown backend) and the object, the active backend
  included, is unchanged; when the name is registered, \<^verbatim>\<open>set_backend\<close> makes the backend
  stored under the name the active one and returns it.
\<close>

theorem set_backend_select:
  "(n \<notin> set (list_backends m) \<longrightarrow>
      set_backend m n = (Inl (ValueError (not_available n)), m)
      \<and> get_backend (snd (set_backend m n)) = get_backend m)
   \<and> (n \<in> set (list_backends m) \<longrightarrow>
      (\<exists>b. dict_getitem (backends m) n = Inr b
           \<and> set_backend m n = (Inr b, m\<lparr>active_backend := b\<rparr>)
           \<and> get_backend (snd (set_backend m n)) = b))"
  by (auto simp: set_backend_def list_backends_def get_backend_def dict_keys_def
                 dict_getitem_def dict_contains_def map_of_eq_None_iff
           split: option.splits)

theorem set_backend_select_witness:
  "''nonexistent'' \<notin> set (list_backends local_manager)
   \<and> set_backend local_manager ''nonexistent'' =
         (Inl (ValueError (not_available ''nonexistent'')), local_manager)
   \<and> ''Aer (qasm)'' \<in> set (list_backends local_manager)
   \<and> get_backend (snd (set_backend local_manager ''Aer (qasm)'')) = AerSimulator ''qasm''"
  using set_backend_select [of "''nonexistent''" local_manager]
        set_backend_select [of "''Aer (qasm)''" local_manager]
  by (simp add: local_manager_def aer_backends_def list_backends_def dict_keys_def
                get_backend_def dict_getitem_def set_backend_def dict_contains_def)

subsection \<open>Construction\<close>

text \<open>
  Claim C10. Immediately after a construction that returns, for every environment and
  all arguments of the constructor, \<^verbatim>\<open>get_backend\<close> returns the exact-statevector
  simulator: the object that \<^verbatim>\<open>AerSimulator(method='statevector')\<close> returned, which is the
  backend registered under the name \<^verbatim>\<open>Aer (statevector)\<close>.
\<close>

theorem init_active_backend:
  "init env ibm_api_token ibm_hub ibm_group ibm_project = Inr m \<Longrightarrow>
   new_AerSimulator env ''statevector'' = Inr (get_backend m)
   \<and> dict_getitem (backends m) ''Aer (statevector)'' = Inr (get_backend m)"
  by (auto simp: get_backend_def dict_getitem_def dest!: init_Inr)

theorem init_active_backend_witness:
  "init (aer_env (Some (account three_devices))) (Some ''token'') None None None = Inr lima_manager
   \<and> new_AerSimulator (aer_env (Some (account three_devices))) ''statevector'' =
        Inr (get_backend lima_manager)
   \<and> get_backend lima_manager = AerSimulator ''statevector''
   \<and> dict_getitem (backends lima_manager) ''Aer (statevector)'' = Inr (AerSimulator ''statevector'')"
proof -
  have i: "init (aer_env (Some (account three_devices))) (Some ''token'') None None None =
             Inr lima_manager"
    by (simp add: init_def load_backends_def load_ibmq_def account_def three_devices_def
                  device_def unreachable_device_def aer_backends_def aer_env_def
                  lima_manager_def dict_getitem_def)
  show ?thesis
    using i init_active_backend [OF i]
    by (simp add: get_backend_def lima_manager_def aer_backends_def dict_getitem_def)
qed

text \<open>
  Claim C5 says that the two built-in simulators are registered for every construction
  input and that their initialization never fails. The constructor makes them with
  \<^verbatim>\<open>AerSimulator(method='statevector')\<close> and \<^verbatim>\<open>AerSimulator(method='qasm')\<close>, outside its
  \<^verbatim>\<open>try\<close> block. With a library that rejects a method that is not one of its simulation
  methods, the second call raises \<^verbatim>\<open>AerError\<close>, and so does the constructor: no
  registry comes into being.
\<close>

theorem init_raises_for_qasm_method:
  "new_AerSimulator (checked_env None) ''statevector'' = Inr (AerSimulator ''statevector'')
   \<and> new_AerSimulator (checked_env None) ''qasm'' = Inl (OtherException ''AerError'')
   \<and> init (checked_env None) None None None None = Inl (OtherException ''AerError'')"
  by (simp add: init_def checked_env_def aer_env_def aer_methods_def)

subsection \<open>Listing the backends\<close>

text \<open>
  Claim C8. After a construction that returns and after every sequence of method
  calls, \<^verbatim>\<open>list_backends\<close> returns the names of all registered backends: the two
  built-in simulators first, then the remote backends that discovery registered, each
  name once, in the order in which the names were first registered.
\<close>

theorem list_backends_registration_order:
  "init env ibm_api_token ibm_hub ibm_group ibm_project = Inr m \<Longrightarrow>
   list_backends (run env m cs) =
     [''Aer (statevector)'', ''Aer (qasm)''] @
     first_occurrences
       (map fst (assignments (enumerated env ibm_api_token ibm_hub ibm_group ibm_project)))"
  by (auto simp: list_backends_def dict_keys_def run_backends register_remote_assignments
                 foldl_dict_set_keys
           dest!: init_Inr)

theorem list_backends_registration_order_witness:
  "init (aer_env (Some (account three_devices))) (Some ''token'') None None None = Inr lima_manager
   \<and> list_backends
        (run (aer_env (Some (account three_devices))) lima_manager
           [SetBackend ''IBM lima'', CreateNoiseModel ''IBM lima'']) =
      [''Aer (statevector)'', ''Aer (qasm)'', ''IBM lima'']"
proof -
  have i: "init (aer_env (Some (account three_devices))) (Some ''token'') None None None =
             Inr lima_manager"
    by (simp add: init_def load_backends_def load_ibmq_def account_def three_devices_def
                  device_def unreachable_device_def aer_backends_def aer_env_def
                  lima_manager_def dict_getitem_def)
  have e: "enumerated (aer_env (Some (account three_devices))) (Some ''token'') None None None =
             three_devices"
    by (simp add: enumerated_def aer_env_def account_def)
  have "list_backends
          (run (aer_env (Some (account three_devices))) lima_manager
             [SetBackend ''IBM lima'', CreateNoiseModel ''IBM lima'']) =
        [''Aer (statevector)'', ''Aer (qasm)''] @
        first_occurrences (map fst (assignments three_devices))"
    using list_backends_registration_order
            [OF i, of "[SetBackend ''IBM lima'', CreateNoiseModel ''IBM lima'']"]
    by (simp only: e)
  then show ?thesis
    using i by (simp add: three_devices_def device_def unreachable_device_def)
qed

subsection \<open>Noise models of a backend\<close>

text \<open>
  Claim C9. For every name, registered or not, \<^verbatim>\<open>get_noise_model\<close> returns and does not
  raise. When no model is cached under the name it returns the empty \<^verbatim>\<open>NoiseModel()\<close>;
  this is the case of every name that is not registered, in every registry reached
  from a construction by method calls, since only \<^verbatim>\<open>create_noise_model\<close> fills the cache
  and it raises \<^verbatim>\<open>ValueError\<close>, leaving the object unchanged, for a name that is not
  registered.
\<close>

theorem get_noise_model_never_raises:
  "(\<exists>nm. get_noise_model m n = Inr nm)
   \<and> (\<not> dict_contains n (noise_models m) \<longrightarrow> get_noise_model m n = Inr NoiseModel)
   \<and> (n \<notin> set (list_backends m) \<longrightarrow>
        create_noise_model env m n = (Inl (ValueError (not_available n)), m))
   \<and> (init env ibm_api_token ibm_hub ibm_group ibm_project = Inr m0
        \<and> n \<notin> set (list_backends (run env m0 cs)) \<longrightarrow>
        get_noise_model (run env m0 cs) n = Inr NoiseModel)"
proof -
  have reachable: "get_noise_model (run env m0 cs) n = Inr NoiseModel"
    if "init env ibm_api_token ibm_hub ibm_group ibm_project = Inr m0"
      and "n \<notin> set (list_backends (run env m0 cs))"
  proof -
    from that(1) have "noise_models m0 = []"
      by (auto dest!: init_Inr)
    then have "set (map fst (noise_models (run env m0 cs))) \<subseteq> set (map fst (backends (run env m0 cs)))"
      by (intro run_cache_registered) simp
    with that(2) have "map_of (noise_models (run env m0 cs)) n = None"
      by (auto simp: list_backends_def dict_keys_def map_of_eq_None_iff)
    then show ?thesis
      by (simp add: get_noise_model_cached)
  qed
  show ?thesis
    using reachable
    by (simp add: get_noise_model_cached create_noise_model_unregistered dict_contains_def)
qed

theorem get_noise_model_never_raises_witness:
  "\<not> dict_contains ''nonexistent'' (noise_models local_manager)
   \<and> get_noise_model local_manager ''nonexistent'' = Inr NoiseModel
   \<and> ''nonexistent'' \<notin> set (list_backends local_manager)
   \<and> create_noise_model (aer_env None) local_manager ''nonexistent'' =
        (Inl (ValueError (not_available ''nonexistent'')), local_manager)
   \<and> init (aer_env None) None None None None = Inr local_manager
   \<and> ''nonexistent'' \<notin>
        set (list_backends (run (aer_env None) local_manager [CreateNoiseModel ''Aer (qasm)'']))
   \<and> get_noise_model (run (aer_env None) local_manager [CreateNoiseModel ''Aer (qasm)''])
        ''nonexistent'' = Inr NoiseModel"
proof -
  let ?cs = "[CreateNoiseModel ''Aer (qasm)'']"
  have i: "init (aer_env None) None None None None = Inr local_manager"
    by (simp add: init_def load_backends_def aer_env_def local_manager_def aer_backends_def
                  dict_getitem_def)
  have k: "list_backends local_manager = [''Aer (statevector)'', ''Aer (qasm)'']"
    by (simp add: list_backends_def dict_keys_def local_manager_def aer_backends_def)
  have r: "list_backends (run (aer_env None) local_manager ?cs) = list_backends local_manager"
    by (simp add: list_backends_def run_backends)
  have c: "\<not> dict_contains ''nonexistent'' (noise_models local_manager)"
    by (simp add: dict_contains_def local_manager_def)
  show ?thesis
    using get_noise_model_never_raises
            [of local_manager "''nonexistent''" "aer_env None" None None None None local_manager ?cs]
          i k r c
    by simp
qed

text \<open>
  Claim C2 says that looking up the noise model of a backend returns the cached model,
  derives one from the calibration data of the backend when none is cached, and
  returns the empty model when the data is absent or malformed. No method does this.
  On the registry \<open>lima_manager\<close>, whose device has calibration data from which the
  library derives a model that is not empty, and which has no cached model,
  \<^verbatim>\<open>get_noise_model\<close> returns the empty model without deriving anything; and
  \<^verbatim>\<open>create_noise_model\<close>, the method that derives, raises for a name that is not
  registered.
\<close>

theorem get_noise_model_does_not_derive:
  "get_noise_model lima_manager ''IBM lima'' = Inr NoiseModel
   \<and> fst (create_noise_model (aer_env None) lima_manager ''IBM lima'') =
        Inr [(''cx'', Depolarizing (1 / 100) 2)]
   \<and> NoiseModel \<noteq> [(''cx'', Depolarizing (1 / 100) 2)]
   \<and> fst (create_noise_model (aer_env None) lima_manager ''nonexistent'') =
        Inl (ValueError (not_available ''nonexistent''))"
  by (simp add: get_noise_model_def dict_get_def lima_manager_def create_noise_model_def
                dict_contains_def dict_getitem_def aer_backends_def aer_env_def NoiseModel_def
                Let_def)

text \<open>
  Claim C2 as amended. \<^verbatim>\<open>get_noise_model\<close> returns the cached model when one is
  present and the empty \<^verbatim>\<open>NoiseModel()\<close> otherwise; it derives nothing.
  \<^verbatim>\<open>create_noise_model\<close> raises \<^verbatim>\<open>ValueError\<close> for a name that is not registered; for a
  registered name it derives a model from \<^verbatim>\<open>backend.properties()\<close>, takes the empty
  model when \<^verbatim>\<open>properties()\<close> or \<^verbatim>\<open>NoiseModel.from_backend\<close> raises, stores the result
  in the cache under the name (in place of any model cached before) and returns it, so
  that \<^verbatim>\<open>get_noise_model\<close> returns this model afterwards.
\<close>

theorem noise_model_cache_and_derivation:
  "(\<forall>nm. map_of (noise_models m) n = Some nm \<longrightarrow> get_noise_model m n = Inr nm)
   \<and> (map_of (noise_models m) n = None \<longrightarrow> get_noise_model m n = Inr NoiseModel)
   \<and> (n \<notin> set (list_backends m) \<longrightarrow>
        create_noise_model env m n = (Inl (ValueError (not_available n)), m))
   \<and> (\<forall>b. map_of (backends m) n = Some b \<longrightarrow>
        (\<exists>nm. create_noise_model env m n =
                 (Inr nm, m\<lparr>noise_models := dict_set n nm (noise_models m)\<rparr>)
             \<and> get_noise_model (snd (create_noise_model env m n)) n = Inr nm
             \<and> (\<forall>props derived.
                   properties env b = Inr props \<and> from_backend env props = Inr derived \<longrightarrow>
                   nm = derived)
             \<and> (\<forall>e. properties env b = Inl e \<longrightarrow> nm = NoiseModel)
             \<and> (\<forall>props e.
                   properties env b = Inr props \<and> from_backend env props = Inl e \<longrightarrow>
                   nm = NoiseModel)))"
  by (auto simp: get_noise_model_cached create_noise_model_unregistered
                 create_noise_model_registered Let_def dict_set_lookup
           split: sum.splits)

theorem noise_model_cache_and_derivation_witness:
  "map_of (noise_models calibrated_manager) ''IBM lima'' = Some [(''cx'', Depolarizing (1 / 100) 2)]
   \<and> get_noise_model calibrated_manager ''IBM lima'' = Inr [(''cx'', Depolarizing (1 / 100) 2)]
   \<and> map_of (noise_models lima_manager) ''IBM lima'' = None
   \<and> get_noise_model lima_manager ''IBM lima'' = Inr NoiseModel
   \<and> ''nonexistent'' \<notin> set (list_backends lima_manager)
   \<and> map_of (backends lima_manager) ''IBM lima'' = Some (IBMBackend (device ''lima''))
   \<and> create_noise_model (aer_env None) lima_manager ''IBM lima'' =
        (Inr [(''cx'', Depolarizing (1 / 100) 2)], calibrated_manager)
   \<and> map_of (backends lima_manager) ''Aer (qasm)'' = Some (AerSimulator ''qasm'')
   \<and> properties (aer_env None) (AerSimulator ''qasm'') = Inl (OtherException ''AttributeError'')
   \<and> fst (create_noise_model (aer_env None) lima_manager ''Aer (qasm)'') = Inr NoiseModel"
  using noise_model_cache_and_derivation [of calibrated_manager "''IBM lima''" "aer_env None"]
        noise_model_cache_and_derivation [of lima_manager "''IBM lima''" "aer_env None"]
        noise_model_cache_and_derivation [of lima_manager "''nonexistent''" "aer_env None"]
        noise_model_cache_and_derivation [of lima_manager "''Aer (qasm)''" "aer_env None"]
  by (simp add: get_noise_model_def dict_get_def lima_manager_def calibrated_manager_def
                create_noise_model_def dict_contains_def dict_getitem_def aer_backends_def
                aer_env_def NoiseModel_def Let_def list_backends_def dict_keys_def)

subsection \<open>Remote discovery\<close>

text \<open>
  Claim C4. No outcome of remote discovery makes the constructor raise, and none
  leaves a partially registered remote backend. The constructor raises only when one of
  the two calls \<^verbatim>\<open>AerSimulator(method=...)\<close>, which precede discovery, raises. When both
  return, the constructor returns whatever account save, account load, provider lookup
  and the enumeration do: the registry starts with the two built-in simulators, and
  every entry after them is a complete remote backend, the backend object itself
  stored under \<^verbatim>\<open>IBM\<close> and its name, whose \<^verbatim>\<open>configuration()\<close> and \<^verbatim>\<open>name()\<close> returned. These
  entries are the assignments that the loop made before the first call that raised;
  when discovery fails before the enumeration, there is none.
\<close>

theorem init_discovery_best_effort:
  "(\<forall>e. init env ibm_api_token ibm_hub ibm_group ibm_project = Inl e \<longrightarrow>
        new_AerSimulator env ''statevector'' = Inl e \<or> new_AerSimulator env ''qasm'' = Inl e)
   \<and> (\<forall>sv qa.
        new_AerSimulator env ''statevector'' = Inr sv \<and> new_AerSimulator env ''qasm'' = Inr qa \<longrightarrow>
        (\<exists>m. init env ibm_api_token ibm_hub ibm_group ibm_project = Inr m
           \<and> take 2 (backends m) = [(''Aer (statevector)'', sv), (''Aer (qasm)'', qa)]
           \<and> list_all complete_entry (drop 2 (backends m))
           \<and> drop 2 (backends m) =
               foldl (\<lambda>d (k, v). dict_set k v d) []
                 (assignments (enumerated env ibm_api_token ibm_hub ibm_group ibm_project))
           \<and> (\<forall>q t e. IBMQ env = Some q \<and> ibm_api_token = Some t
                  \<and> (save_account q t = Inl e \<or> load_account q = Inl e
                      \<or> get_provider q ibm_hub ibm_group ibm_project = Inl e
                      \<or> (\<exists>pr. get_provider q ibm_hub ibm_group ibm_project = Inr pr
                            \<and> provider_backends pr = Inl e)) \<longrightarrow>
                drop 2 (backends m) = [])))"
proof -
  let ?rs = "enumerated env ibm_api_token ibm_hub ibm_group ibm_project"
  have complete: "list_all complete_entry (fst (register_remote ?rs []))"
    by (rule register_remote_complete)
  have fold: "fst (register_remote ?rs []) = foldl (\<lambda>d (k, v). dict_set k v d) [] (assignments ?rs)"
    by (rule register_remote_assignments)
  have early: "fst (register_remote ?rs []) = []"
    if "IBMQ env = Some q" "ibm_api_token = Some t"
       "save_account q t = Inl e \<or> load_account q = Inl e
          \<or> get_provider q ibm_hub ibm_group ibm_project = Inl e
          \<or> (\<exists>pr. get_provider q ibm_hub ibm_group ibm_project = Inr pr
                \<and> provider_backends pr = Inl e)" for q t e
    using enumerated_failure [OF that] by simp
  have returns: "\<exists>m. init env ibm_api_token ibm_hub ibm_group ibm_project = Inr m
           \<and> take 2 (backends m) = [(''Aer (statevector)'', sv), (''Aer (qasm)'', qa)]
           \<and> list_all complete_entry (drop 2 (backends m))
           \<and> drop 2 (backends m) = foldl (\<lambda>d (k, v). dict_set k v d) [] (assignments ?rs)
           \<and> (\<forall>q t e. IBMQ env = Some q \<and> ibm_api_token = Some t
                  \<and> (save_account q t = Inl e \<or> load_account q = Inl e
                      \<or> get_provider q ibm_hub ibm_group ibm_project = Inl e
                      \<or> (\<exists>pr. get_provider q ibm_hub ibm_group ibm_project = Inr pr
                            \<and> provider_backends pr = Inl e)) \<longrightarrow>
                drop 2 (backends m) = [])"
    if sv: "new_AerSimulator env ''statevector'' = Inr sv"
      and qa: "new_AerSimulator env ''qasm'' = Inr qa" for sv qa
    unfolding init_returns [OF sv qa]
    using complete fold early
    by (intro exI [of _ "\<lparr>backends = [(''Aer (statevector)'', sv), (''Aer (qasm)'', qa)] @
            fst (register_remote ?rs []), noise_models = [], active_backend = sv\<rparr>"])
       (simp; blast)
  show ?thesis
    using returns init_Inl [of env ibm_api_token ibm_hub ibm_group ibm_project] by blast
qed

theorem init_discovery_best_effort_witness:
  "new_AerSimulator (aer_env (Some (account three_devices))) ''statevector'' =
     Inr (AerSimulator ''statevector'')
   \<and> new_AerSimulator (aer_env (Some (account three_devices))) ''qasm'' = Inr (AerSimulator ''qasm'')
   \<and> snd (load_ibmq (account three_devices) ''token'' None None None aer_backends) =
        Some (OtherException ''RequestsApiError'')
   \<and> init (aer_env (Some (account three_devices))) (Some ''token'') None None None = Inr lima_manager
   \<and> drop 2 (backends lima_manager) = [(''IBM lima'', IBMBackend (device ''lima''))]
   \<and> IBMQ (aer_env (Some no_account)) = Some no_account
   \<and> load_account no_account = Inl (OtherException ''IBMQAccountCredentialsInvalidToken'')
   \<and> init (aer_env (Some no_account)) (Some ''token'') None None None = Inr local_manager
   \<and> drop 2 (backends local_manager) = []
   \<and> init (checked_env None) None None None None = Inl (OtherException ''AerError'')
   \<and> new_AerSimulator (checked_env None) ''qasm'' = Inl (OtherException ''AerError'')"
  using init_discovery_best_effort
          [of "aer_env (Some (account three_devices))" "Some ''token''" None None None]
        init_discovery_best_effort [of "aer_env (Some no_account)" "Some ''token''" None None None]
        init_discovery_best_effort [of "checked_env None" None None None None]
  by (simp add: load_ibmq_def account_def no_account_def three_devices_def device_def
                unreachable_device_def aer_backends_def init_def load_backends_def aer_env_def
                checked_env_def aer_methods_def lima_manager_def local_manager_def
                dict_getitem_def)

subsection \<open>Synthetic noise models\<close>

text \<open>
  Claim C3 says that both constructors fail for a probability outside \<open>[0, 1]\<close> and
  return a noise model for one inside. \<^verbatim>\<open>backend.py\<close> does not check the probability:
  it passes it to the library. In the environment \<open>aer_env\<close>, whose
  \<^verbatim>\<open>depolarizing_error\<close> accepts the range documented for one qubit, up to \<open>4/3\<close>,
  \<^verbatim>\<open>sample_depolarizing\<close> returns a noise model for \<open>p = 6/5\<close>.
\<close>

theorem sample_depolarizing_accepts_out_of_range:
  "sample_depolarizing (aer_env None) (6 / 5) =
     Inr [(''u1'', Depolarizing (6 / 5) 1), (''u2'', Depolarizing (6 / 5) 1),
          (''u3'', Depolarizing (6 / 5) 1)]
   \<and> (1::real) < 6 / 5"
  by (simp add: sample_depolarizing_def add_all_qubit_quantum_error_def
                check_number_of_qubits_def instruction_tables aer_env_def
                NoiseModel_def)

text \<open>
  Claim C3 as amended. Neither constructor checks the probability itself. A probability
  that the error constructor of the library rejects, \<^verbatim>\<open>depolarizing_error(p, 1)\<close> or
  \<^verbatim>\<open>pauli_error([('X', p), ('I', 1-p)])\<close>, makes the call fail with the exception of the
  library. The depolarizing constructor fails for no other probability, as long as
  the error that the library returns acts on one qubit: a probability outside
  \<open>[0, 1]\<close> that the library accepts is not rejected, and for every probability in
  \<open>[0, 1]\<close> the constructor returns a noise model when the library accepts that range.
  For the Pauli constructor a probability outside \<open>[0, 1]\<close> always puts a negative
  weight into the list handed to the library. What the Pauli constructor does with a
  probability that the library accepts is not part of this statement.
\<close>

theorem sample_noise_fails_as_library:
  "(\<forall>e. depolarizing_error env p 1 = Inl e \<longrightarrow> sample_depolarizing env p = Inl e)
   \<and> (\<forall>e. pauli_error env [(''X'', p), (''I'', float_sub env 1 p)] = Inl e \<longrightarrow>
        sample_pauli env p = Inl e)
   \<and> (\<forall>e. sample_depolarizing env p = Inl e \<longrightarrow>
        depolarizing_error env p 1 = Inl e
        \<or> (\<exists>err. depolarizing_error env p 1 = Inr err \<and> num_qubits env err \<noteq> 1))
   \<and> (depolarizing_contract env \<and> 0 \<le> p \<and> p \<le> 1 \<longrightarrow>
        (\<exists>nm. sample_depolarizing env p = Inr nm))
   \<and> ((p < 0 \<or> 1 < p) \<and> rounded_sub env 1 p \<longrightarrow>
        list_ex (\<lambda>w. w < 0) (map snd (pauli_ops env p)))"
proof -
  have neg: "float_sub env 1 p < 0" if "1 < p" "rounded_sub env 1 p"
    using that rounded_negative [of p "float_sub env 1 p"] by (simp add: rounded_sub_def)
  have only: "depolarizing_error env p 1 = Inl e
        \<or> (\<exists>err. depolarizing_error env p 1 = Inr err \<and> num_qubits env err \<noteq> 1)"
    if "sample_depolarizing env p = Inl e" for e
  proof (cases "depolarizing_error env p 1")
    case (Inl e')
    with that show ?thesis by (simp add: sample_depolarizing_def)
  next
    case (Inr err)
    with that sample_depolarizing_accepted [OF Inr] show ?thesis by auto
  qed
  have inside: "\<exists>nm. sample_depolarizing env p = Inr nm"
    if "depolarizing_contract env" "0 \<le> p" "p \<le> 1"
  proof -
    from that obtain err where "depolarizing_error env p 1 = Inr err" "num_qubits env err = 1"
      unfolding depolarizing_contract_def by blast
    then show ?thesis
      by (simp add: sample_depolarizing_accepted)
  qed
  show ?thesis
    using neg only inside
    by (auto simp: sample_depolarizing_def sample_pauli_def pauli_ops_def)
qed

theorem sample_noise_fails_as_library_witness:
  "depolarizing_error (aer_env None) (3 / 2) 1 = Inl (OtherException ''NoiseError'')
   \<and> sample_depolarizing (aer_env None) (3 / 2) = Inl (OtherException ''NoiseError'')
   \<and> pauli_error (aer_env None) [(''X'', 3 / 2), (''I'', float_sub (aer_env None) 1 (3 / 2))] =
        Inl (OtherException ''NoiseError'')
   \<and> sample_pauli (aer_env None) (3 / 2) = Inl (OtherException ''NoiseError'')
   \<and> depolarizing_contract (aer_env None) \<and> (0::real) \<le> 1 / 4 \<and> (1::real) / 4 \<le> 1
   \<and> sample_depolarizing (aer_env None) (1 / 4) =
        Inr [(''u1'', Depolarizing (1 / 4) 1), (''u2'', Depolarizing (1 / 4) 1),
             (''u3'', Depolarizing (1 / 4) 1)]
   \<and> (1::real) < 3 / 2 \<and> rounded_sub (aer_env None) 1 (3 / 2)
   \<and> list_ex (\<lambda>w. w < 0) (map snd (pauli_ops (aer_env None) (3 / 2)))"
proof -
  have c: "depolarizing_contract (aer_env None)"
    by (rule aer_env_contract)
  show ?thesis
    using c
          sample_noise_fails_as_library [of "aer_env None" "3 / 2"]
          sample_noise_fails_as_library [of "aer_env None" "1 / 4"]
    by (simp add: sample_depolarizing_def sample_pauli_def pauli_ops_def aer_env_def
                  add_all_qubit_quantum_error_def check_number_of_qubits_def
                  instruction_tables NoiseModel_def rounded_sub_def)
qed

text \<open>
  Claim C6 says that the depolarizing constructor attaches the channel to every
  single-qubit gate of the native set. The instruction list in \<^verbatim>\<open>backend.py\<close> is fixed,
  \<^verbatim>\<open>['u1', 'u2', 'u3']\<close>, and the constructor takes no backend; the native set belongs to
  the backend (\<^verbatim>\<open>ui.py\<close> reads it from \<^verbatim>\<open>backend.configuration().basis_gates\<close>). The
  Hadamard gate \<^verbatim>\<open>h\<close>, which the sample circuits of \<^verbatim>\<open>ui.py\<close> apply to one qubit and
  which is one of the one-qubit instructions of the library, receives no channel.
\<close>

theorem sample_depolarizing_skips_hadamard:
  "sample_depolarizing (aer_env None) (1 / 10) =
     Inr [(''u1'', Depolarizing (1 / 10) 1), (''u2'', Depolarizing (1 / 10) 1),
          (''u3'', Depolarizing (1 / 10) 1)]
   \<and> map_of [(''u1'', Depolarizing (1 / 10) 1), (''u2'', Depolarizing (1 / 10) 1),
              (''u3'', Depolarizing (1 / 10) 1)] ''h'' = None
   \<and> ''h'' \<in> set one_qubit_instructions"
  by (simp add: sample_depolarizing_def add_all_qubit_quantum_error_def
                check_number_of_qubits_def instruction_tables aer_env_def
                NoiseModel_def)

text \<open>
  Claim C6 as amended. For every probability in \<open>[0, 1]\<close>, with a library whose
  \<^verbatim>\<open>depolarizing_error(p, 1)\<close> returns a one-qubit error on that range, the constructor
  returns a noise model. The model attaches this error, for all qubits, to the three
  instructions \<^verbatim>\<open>u1\<close>, \<^verbatim>\<open>u2\<close> and \<^verbatim>\<open>u3\<close> and to no other instruction, whatever the native
  set of a backend is; when the error is ideal the library skips it and the model is
  empty.
\<close>

theorem sample_depolarizing_instructions:
  "depolarizing_contract env \<Longrightarrow> 0 \<le> p \<Longrightarrow> p \<le> 1 \<Longrightarrow>
   \<exists>err nm. depolarizing_error env p 1 = Inr err \<and> sample_depolarizing env p = Inr nm
      \<and> nm = (if ideal env err then [] else [(''u1'', err), (''u2'', err), (''u3'', err)])
      \<and> set (dict_keys nm) \<subseteq> {''u1'', ''u2'', ''u3''}"
proof -
  assume c: "depolarizing_contract env" and p: "0 \<le> p" "p \<le> 1"
  from c p obtain err where e: "depolarizing_error env p 1 = Inr err" "num_qubits env err = 1"
    unfolding depolarizing_contract_def by blast
  show ?thesis
    using e sample_depolarizing_accepted [OF e]
    by (auto simp: dict_keys_def)
qed

theorem sample_depolarizing_instructions_witness:
  "depolarizing_contract (aer_env None) \<and> (0::real) \<le> 1 / 10 \<and> (1::real) / 10 \<le> 1
   \<and> sample_depolarizing (aer_env None) (1 / 10) =
        Inr [(''u1'', Depolarizing (1 / 10) 1), (''u2'', Depolarizing (1 / 10) 1),
             (''u3'', Depolarizing (1 / 10) 1)]
   \<and> sample_depolarizing (aer_env None) 0 = Inr []"
proof -
  have c: "depolarizing_contract (aer_env None)"
    by (rule aer_env_contract)
  show ?thesis
    using c sample_depolarizing_instructions [OF c, of "1 / 10"]
          sample_depolarizing_instructions [OF c, of 0]
    by (simp add: sample_depolarizing_def add_all_qubit_quantum_error_def
                  check_number_of_qubits_def instruction_tables aer_env_def
                  NoiseModel_def)
qed

text \<open>
  Claim C7 says that for every probability in \<open>[0, 1]\<close> the Pauli constructor builds a
  channel with the weights \<open>p\<close> for \<^verbatim>\<open>X\<close> and \<^verbatim>\<open>1-p\<close> for \<^verbatim>\<open>I\<close> and attaches it to the
  entangling gate. The weights are as the claim says (\<open>pauli_ops_weights\<close>), but the
  labels \<^verbatim>\<open>X\<close> and \<^verbatim>\<open>I\<close> have one letter, so that the error acts on one qubit, while
  \<^verbatim>\<open>cx\<close> is a two-qubit instruction: at \<open>p = 1/4\<close> the library builds the error and then
  raises \<^verbatim>\<open>NoiseError\<close> when the constructor attaches it, and no channel reaches \<^verbatim>\<open>cx\<close>.
\<close>

theorem sample_pauli_raises_on_cx:
  "pauli_error (aer_env None) (pauli_ops (aer_env None) (1 / 4)) =
     Inr (Pauli [(''X'', 1 / 4), (''I'', 3 / 4)])
   \<and> num_qubits (aer_env None) (Pauli [(''X'', 1 / 4), (''I'', 3 / 4)]) = 1
   \<and> ''cx'' \<in> set two_qubit_instructions
   \<and> sample_pauli (aer_env None) (1 / 4) = Inl (OtherException ''NoiseError'')"
  by (simp add: sample_pauli_def pauli_ops_def add_all_qubit_quantum_error_def
                check_number_of_qubits_def instruction_tables aer_env_def NoiseModel_def)

end
